theory Spec2Isabelle
  imports Main
begin

section \<open>Values, rows, tables and errors\<close>

text \<open>
  The scalar values that travel through a command line: Python's \<open>None\<close>, booleans,
  integers and strings.
\<close>

datatype val = VNone | VBool bool | VInt int | VStr string

text \<open>
  Modelled from the spec: the \<open>ValueType\<close> enumeration of \<open>freenas.cli.output\<close>, which the
  source imports; the tags are the ones of the spec's value model.
\<close>

datatype value_type = STRING | NUMBER | BOOLEAN | SET | DICT | SIZE | TIME | ENUM

text \<open>
  Exceptions. \<open>CommandException\<close> is the only exception class that \<open>commands.py\<close> raises
  in the commands modelled here; the other constructors are the exceptions of called code
  that the source either catches by class (\<open>UnicodeDecodeError\<close>, \<open>KeyError\<close>,
  \<open>StopIteration\<close>) or lets
  pass (\<open>AttributeError\<close> of a method call on \<open>None\<close>, \<open>OtherError\<close> for anything else).
\<close>

datatype error =
    CommandException string
  | UnicodeDecodeError string
  | KeyError string
  | StopIteration
  | AttributeError string
  | OtherError string

text \<open>A row of a table is a Python dict from field names to values.\<close>

type_synonym row = "string \<rightharpoonup> val"

text \<open>
  \<open>Table.Column(label, accessor[, type])\<close> and \<open>Table(data, columns)\<close>. The type of a column
  is \<open>None\<close> where the constructor call leaves it out.
\<close>

record column =
  label :: string
  accessor :: string
  vt :: "value_type option"

record table =
  columns :: "column list"
  data :: "row list"

text \<open>
  What a command returns and a pipe stage receives as \<open>input\<close>: a \<open>Table\<close>, or any other
  Python value. The absent result \<open>None\<close> is \<open>Value VNone\<close>.
\<close>

datatype "output" = Table table | Value val | Sequence "val list"

section \<open>Property mappings, namespaces and the context\<close>

text \<open>
  The attributes of a property mapping that \<open>commands.py\<close> reads: \<open>name\<close>, \<open>type\<close>
  (\<open>None\<close> where \<open>add_property\<close> is called without one), the \<open>list\<close> flag, and the getter
  \<open>do_get\<close>, which is a method of the class in \<open>freenas.cli.namespace\<close> and is kept as
  a function of the mapping; it may raise.
\<close>

record property_mapping =
  name :: string
  type :: "value_type option"
  list :: bool
  do_get :: "row \<Rightarrow> error + val"

text \<open>
  A namespace as \<open>commands.py\<close> uses it. \<open>has_property\<close> and \<open>get_mapping\<close> are methods of
  the namespace classes of \<open>freenas.cli.namespace\<close>; they are kept as functions of the
  namespace, so that every statement below holds for whatever they compute.
  \<open>primary_key\<close> is \<open>None\<close> for a namespace that declares none.
\<close>

record namespace =
  property_mappings :: "property_mapping list"
  primary_key :: "property_mapping option"
  has_property :: "string \<Rightarrow> bool"
  get_mapping :: "string \<Rightarrow> property_mapping"

text \<open>
  The main loop's session state (\<open>context.ml\<close>): the navigation path and the alias table,
  a dict in insertion order.
\<close>

record mainloop =
  path :: "namespace list"
  aliases :: "(string \<times> val) list"

record "context" =
  root_ns :: namespace
  pipe_cwd :: namespace
  ml :: mainloop

text \<open>The arguments every command's \<open>run\<close> receives.\<close>

type_synonym args = "val list"
type_synonym kwargs = "(string \<times> val) list"
type_synonym opargs = "(string \<times> string \<times> val) list"

text \<open>
  Functions of other modules that the modelled commands call: \<open>read_value\<close> of
  \<open>freenas.cli.output\<close>, which coerces a raw value to a value type and may raise, and
  Python's rendering of an argument list and of a keyword dict by \<open>str.format\<close>.
\<close>

record externals =
  read_value :: "val \<Rightarrow> value_type option \<Rightarrow> error + val"
  format_args :: "args \<Rightarrow> string"
  format_kwargs :: "kwargs \<Rightarrow> string"

text \<open>
  \<open>_ = t.gettext\<close> with \<open>t = gettext.translation('freenas-cli', fallback=True)\<close>: the
  fallback catalogue, which returns every message unchanged.
\<close>

definition gettext :: "string \<Rightarrow> string" where
  "gettext msg = msg"

text \<open>\<open>sep.join(xs)\<close>\<close>

fun join :: "string \<Rightarrow> string list \<Rightarrow> string" where
  "join sep [] = []"
| "join sep [x] = x"
| "join sep (x # y # ys) = x @ sep @ join sep (y # ys)"

section \<open>Server-side filters: \<open>map_opargs\<close>, \<open>search\<close>, \<open>exclude\<close>\<close>

text \<open>
  An element of a serialized filter: a comparison triple \<open>(property, operator, value)\<close>, or
  a combinator applied to a tuple of elements, as in \<open>('nor', (t,))\<close>.
\<close>

datatype filter_item =
    Triple string string val
  | Combinator string "filter_item list"

text \<open>The dict \<open>{"filter": [...]}\<close> that \<open>serialize_filter\<close> returns.\<close>

datatype query = Filter "filter_item list"

text \<open>
  \<open>[x.name for x in ns.property_mappings if x.list]\<close> and the message of the exception
  that \<open>map_opargs\<close> raises for a key that is not a property.
\<close>

definition listable_names :: "namespace \<Rightarrow> string list" where
  "listable_names ns = map name (filter list (property_mappings ns))"

definition property_not_found :: "string \<Rightarrow> namespace \<Rightarrow> string" where
  "property_not_found k ns =
     ''Property '' @ k @ '' not found, valid properties are: '' @ join '','' (listable_names ns)"

text \<open>
  The loop of \<open>map_opargs\<close>; the last argument is \<open>mapped_opargs\<close>, the list built so far.
\<close>

fun map_opargs_loop ::
  "externals \<Rightarrow> namespace \<Rightarrow> opargs \<Rightarrow> (string \<times> string \<times> val) list
     \<Rightarrow> error + (string \<times> string \<times> val) list" where
  "map_opargs_loop ext ns [] mapped_opargs = Inr mapped_opargs"
| "map_opargs_loop ext ns ((k, oper, v) # rest) mapped_opargs =
     (if has_property ns k then
        (let mapping = get_mapping ns k in
         case read_value ext v (type mapping) of
           Inl e \<Rightarrow> Inl e
         | Inr v' \<Rightarrow> map_opargs_loop ext ns rest (mapped_opargs @ [(name mapping, oper, v')]))
      else Inl (CommandException (gettext (property_not_found k ns))))"

definition map_opargs :: "externals \<Rightarrow> opargs \<Rightarrow> context \<Rightarrow> error + (string \<times> string \<times> val) list" where
  "map_opargs ext opargs ctx = map_opargs_loop ext (pipe_cwd ctx) opargs []"

text \<open>\<open>"Invalid syntax {0}. For help see 'help <command>'".format(what)\<close>\<close>

definition invalid_syntax :: "string \<Rightarrow> string" where
  "invalid_syntax what = ''Invalid syntax '' @ what @ ''. For help see 'help <command>'' @ [CHR 0x27]"

definition triple :: "string \<times> string \<times> val \<Rightarrow> filter_item" where
  "triple t = (case t of (k, oper, v) \<Rightarrow> Triple k oper v)"

definition SearchPipeCommand_serialize_filter ::
  "externals \<Rightarrow> context \<Rightarrow> args \<Rightarrow> kwargs \<Rightarrow> opargs \<Rightarrow> error + query" where
  "SearchPipeCommand_serialize_filter ext ctx args kwargs opargs =
     (case map_opargs ext opargs ctx of
        Inl e \<Rightarrow> Inl e
      | Inr mapped_opargs \<Rightarrow>
          if length kwargs > 0 then
            Inl (CommandException (gettext (invalid_syntax (format_kwargs ext kwargs))))
          else if length args > 0 then
            Inl (CommandException (gettext (invalid_syntax (format_args ext args))))
          else Inr (Filter (map triple mapped_opargs)))"

text \<open>\<open>('nor', (i,))\<close>\<close>

definition nor :: "string \<times> string \<times> val \<Rightarrow> filter_item" where
  "nor i = Combinator ''nor'' [triple i]"

definition ExcludePipeCommand_serialize_filter ::
  "externals \<Rightarrow> context \<Rightarrow> args \<Rightarrow> kwargs \<Rightarrow> opargs \<Rightarrow> error + query" where
  "ExcludePipeCommand_serialize_filter ext ctx args kwargs opargs =
     (case map_opargs ext opargs ctx of
        Inl e \<Rightarrow> Inl e
      | Inr mapped_opargs \<Rightarrow>
          if length kwargs > 0 then
            Inl (CommandException (gettext (invalid_syntax (format_kwargs ext kwargs))))
          else if length args > 0 then
            Inl (CommandException (gettext (invalid_syntax (format_args ext args))))
          else Inr (Filter (map nor mapped_opargs)))"

section \<open>Client-side \<open>run\<close> of the pipe commands\<close>

text \<open>
  \<open>run(self, context, args, kwargs, opargs, input=None)\<close> of the stages that serialize a
  filter or query parameters.
\<close>

definition SearchPipeCommand_run ::
  "context \<Rightarrow> args \<Rightarrow> kwargs \<Rightarrow> opargs \<Rightarrow> output \<Rightarrow> error + output" where
  "SearchPipeCommand_run ctx args kwargs opargs inp = Inr inp"

definition OlderThanPipeCommand_run ::
  "context \<Rightarrow> args \<Rightarrow> kwargs \<Rightarrow> opargs \<Rightarrow> output \<Rightarrow> error + output" where
  "OlderThanPipeCommand_run ctx args kwargs opargs inp = Inr inp"

definition NewerThanPipeCommand_run ::
  "context \<Rightarrow> args \<Rightarrow> kwargs \<Rightarrow> opargs \<Rightarrow> output \<Rightarrow> error + output" where
  "NewerThanPipeCommand_run ctx args kwargs opargs inp = Inr inp"

definition TailPipeCommand_run ::
  "context \<Rightarrow> args \<Rightarrow> kwargs \<Rightarrow> opargs \<Rightarrow> output \<Rightarrow> error + output" where
  "TailPipeCommand_run ctx args kwargs opargs inp = Inr inp"

definition ExcludePipeCommand_run ::
  "context \<Rightarrow> args \<Rightarrow> kwargs \<Rightarrow> opargs \<Rightarrow> output \<Rightarrow> error + output" where
  "ExcludePipeCommand_run ctx args kwargs opargs inp = Inr inp"

definition SortPipeCommand_run ::
  "context \<Rightarrow> args \<Rightarrow> kwargs \<Rightarrow> opargs \<Rightarrow> output \<Rightarrow> error + output" where
  "SortPipeCommand_run ctx args kwargs opargs inp = Inr inp"

definition LimitPipeCommand_run ::
  "context \<Rightarrow> args \<Rightarrow> kwargs \<Rightarrow> opargs \<Rightarrow> output \<Rightarrow> error + output" where
  "LimitPipeCommand_run ctx args kwargs opargs inp = Inr inp"

text \<open>
  \<open>FindPipeCommand.run\<close>. \<open>next(iter(input.data))\<close> raises \<open>StopIteration\<close> on an empty
  table; that exception and a \<open>KeyError\<close> or \<open>StopIteration\<close> of \<open>do_get\<close> are caught and
  give \<open>None\<close>, any other exception passes. With no primary key, \<open>prop\<close> is \<open>None\<close> and the
  call \<open>prop.do_get\<close> raises \<open>AttributeError\<close>. An input that is not a \<open>Table\<close> falls
  through to the end of the function, which returns \<open>None\<close>.
\<close>

definition no_attribute_do_get :: string where
  "no_attribute_do_get = CHR 0x27 # ''NoneType' object has no attribute 'do_get'' @ [CHR 0x27]"

definition FindPipeCommand_run ::
  "context \<Rightarrow> args \<Rightarrow> kwargs \<Rightarrow> opargs \<Rightarrow> output \<Rightarrow> error + output" where
  "FindPipeCommand_run ctx args kwargs opargs inp =
     (let ns = pipe_cwd ctx; prop = primary_key ns in
      case inp of
        Table t \<Rightarrow>
          (case data t of
             [] \<Rightarrow> Inr (Value VNone)
           | first # _ \<Rightarrow>
               (case prop of
                  None \<Rightarrow> Inl (AttributeError no_attribute_do_get)
                | Some p \<Rightarrow>
                    (case do_get p first of
                       Inr v \<Rightarrow> Inr (Value v)
                     | Inl StopIteration \<Rightarrow> Inr (Value VNone)
                     | Inl (KeyError _) \<Rightarrow> Inr (Value VNone)
                     | Inl e \<Rightarrow> Inl e)))
      | _ \<Rightarrow> Inr (Value VNone))"

text \<open>
  \<open>x.get(key)\<close> on a row: the rows are keyed by field names, so a key that is no string
  finds nothing and gives \<open>None\<close>, as a missing field name does.
\<close>

definition dict_get :: "row \<Rightarrow> val \<Rightarrow> val" where
  "dict_get x key =
     (case key of
        VStr f \<Rightarrow> (case x f of None \<Rightarrow> VNone | Some v \<Rightarrow> v)
      | _ \<Rightarrow> VNone)"

text \<open>
  \<open>SelectPipeCommand.run\<close>. Iterating a \<open>Table\<close> yields the rows of its \<open>data\<close>; the
  generator assigned to \<open>result.data\<close> is the list of its elements. An input that is not
  a \<open>Table\<close> falls through to the end of the function, which returns \<open>None\<close>.
\<close>

definition SelectPipeCommand_run ::
  "context \<Rightarrow> args \<Rightarrow> kwargs \<Rightarrow> opargs \<Rightarrow> output \<Rightarrow> error + output" where
  "SelectPipeCommand_run ctx args kwargs opargs inp =
     (if length args \<noteq> 1 then
        Inl (CommandException ''Please specify exactly one field name'')
      else
        (case inp of
           Table t \<Rightarrow>
             Inr (Table \<lparr>columns = [\<lparr>label = ''Result'', accessor = ''result'', vt = None\<rparr>],
                         data = map (\<lambda>x. [''result'' \<mapsto> dict_get x (args ! 0)]) (data t)\<rparr>)
         | _ \<Rightarrow> Inr (Value VNone)))"

section \<open>Builtin commands: \<open>source\<close>, \<open>top\<close>, \<open>alias\<close>\<close>

text \<open>
  What \<open>SourceCommand.run\<close> calls: \<open>os.path.expanduser\<close>, \<open>os.path.isfile\<close>, opening and
  reading a file in binary mode, \<open>bytes.decode('utf8')\<close>, the parser's \<open>parse(text, filename)\<close>
  and \<open>context.eval_block(ast)\<close>. Each of the last four may raise; \<open>eval_block\<close> may have
  changed the context before it raises, so it returns the context in both cases.
\<close>

record 'a source_env =
  expanduser :: "string \<Rightarrow> string"
  isfile :: "string \<Rightarrow> bool"
  read_file :: "string \<Rightarrow> error + string"
  decode_utf8 :: "string \<Rightarrow> error + string"
  parse :: "string \<Rightarrow> string \<Rightarrow> error + 'a"
  eval_block :: "'a \<Rightarrow> context \<Rightarrow> error option \<times> context"

text \<open>
  The calls with an effect that a run of \<open>source\<close> makes, in order: \<open>open(arg, 'rb')\<close> and
  \<open>context.eval_block(ast)\<close>. The log is carried next to the context; the source has no
  such variable.
\<close>

datatype 'a event = Open string | Eval 'a

type_synonym 'a source_state = "context \<times> 'a event list"

text \<open>\<open>except UnicodeDecodeError as e: raise CommandException(...)\<close>; other exceptions pass.\<close>

definition except_UnicodeDecodeError :: "error \<Rightarrow> error" where
  "except_UnicodeDecodeError e =
     (case e of
        UnicodeDecodeError s \<Rightarrow>
          CommandException (gettext (''Incorrect filetype, cannot parse file: '' @ s))
      | _ \<Rightarrow> e)"

text \<open>The body of the loop \<open>for arg in args\<close>: the exception raised, if any, and the state.\<close>

definition source_file ::
  "'a source_env \<Rightarrow> string \<Rightarrow> 'a source_state \<Rightarrow> error option \<times> 'a source_state" where
  "source_file env arg0 st =
     (case st of (ctx, log) \<Rightarrow>
        let arg = expanduser env arg0 in
        if isfile env arg then
          (case read_file env arg of
             Inl e \<Rightarrow> (Some (except_UnicodeDecodeError e), ctx, log @ [Open arg])
           | Inr bytes \<Rightarrow>
               (case decode_utf8 env bytes of
                  Inl e \<Rightarrow> (Some (except_UnicodeDecodeError e), ctx, log @ [Open arg])
                | Inr text \<Rightarrow>
                    (case parse env text arg of
                       Inl e \<Rightarrow> (Some (except_UnicodeDecodeError e), ctx, log @ [Open arg])
                     | Inr ast \<Rightarrow>
                         (case eval_block env ast ctx of
                            (Some e, ctx') \<Rightarrow>
                              (Some (except_UnicodeDecodeError e), ctx', log @ [Open arg, Eval ast])
                          | (None, ctx') \<Rightarrow> (None, ctx', log @ [Open arg, Eval ast])))))
        else
          (Some (CommandException (gettext (''File '' @ arg @ '' does not exist.''))), ctx, log))"

fun source_loop ::
  "'a source_env \<Rightarrow> string list \<Rightarrow> 'a source_state \<Rightarrow> error option \<times> 'a source_state" where
  "source_loop env [] st = (None, st)"
| "source_loop env (arg # rest) st =
     (case source_file env arg st of
        (Some e, st') \<Rightarrow> (Some e, st')
      | (None, st') \<Rightarrow> source_loop env rest st')"

definition SourceCommand_run ::
  "'a source_env \<Rightarrow> context \<Rightarrow> string list \<Rightarrow> error option \<times> 'a source_state" where
  "SourceCommand_run env ctx args =
     (if length args = 0 then
        (Some (CommandException
           (gettext (''Please provide a filename. For help see 'help <command>'' @ [CHR 0x27]))),
         ctx, [])
      else source_loop env args (ctx, []))"

text \<open>\<open>TopCommand.run\<close>: the value returned and the context after the assignment.\<close>

definition TopCommand_run :: "context \<Rightarrow> args \<Rightarrow> kwargs \<Rightarrow> opargs \<Rightarrow> output \<times> context" where
  "TopCommand_run ctx args kwargs opargs =
     (Value VNone, ctx\<lparr>ml := (ml ctx)\<lparr>path := [root_ns ctx]\<rparr>\<rparr>)"

text \<open>
  \<open>d[k] = v\<close> on a dict in insertion order: an existing key keeps its place, a new key goes
  to the end.
\<close>

fun dict_set :: "('k \<times> 'v) list \<Rightarrow> 'k \<Rightarrow> 'v \<Rightarrow> ('k \<times> 'v) list" where
  "dict_set [] k v = [(k, v)]"
| "dict_set ((k', v') # d) k v = (if k' = k then (k, v) # d else (k', v') # dict_set d k v)"

text \<open>\<open>for name, value in kwargs.items(): context.ml.aliases[name] = value\<close>\<close>

fun set_aliases :: "kwargs \<Rightarrow> (string \<times> val) list \<Rightarrow> (string \<times> val) list" where
  "set_aliases [] d = d"
| "set_aliases ((nm, v) # rest) d = set_aliases rest (dict_set d nm v)"

text \<open>\<open>AliasCommand.run\<close>: the value returned and the context afterwards.\<close>

definition AliasCommand_run :: "context \<Rightarrow> args \<Rightarrow> kwargs \<Rightarrow> opargs \<Rightarrow> output \<times> context" where
  "AliasCommand_run ctx args kwargs opargs =
     (if kwargs = [] then
        (Table \<lparr>columns = [\<lparr>label = ''Alias name'', accessor = ''label'', vt = None\<rparr>,
                           \<lparr>label = ''Alias value'', accessor = ''value'', vt = None\<rparr>],
                data = map (\<lambda>(k, v). [''label'' \<mapsto> VStr k, ''value'' \<mapsto> v]) (aliases (ml ctx))\<rparr>,
         ctx)
      else
        (Value VNone, ctx\<lparr>ml := (ml ctx)\<lparr>aliases := set_aliases kwargs (aliases (ml ctx))\<rparr>\<rparr>))"

section \<open>Evaluation of a serialized filter\<close>

text \<open>
  Modelled from the spec: how the data source evaluates the composed query; the evaluator is
  no part of \<open>commands.py\<close> or \<open>plugins/shares.py\<close>. The spec makes the query a conjunction of
  its elements and calls the \<open>nor\<close> combinator of \<open>exclude\<close> a negation combinator: it holds
  when none of its elements does. What a comparison triple means on a row, and what any
  other combinator does, is left to the data source.
\<close>

record datasource =
  satisfies :: "row \<Rightarrow> string \<Rightarrow> string \<Rightarrow> val \<Rightarrow> bool"
  combine :: "string \<Rightarrow> bool list \<Rightarrow> bool"

fun holds :: "datasource \<Rightarrow> row \<Rightarrow> filter_item \<Rightarrow> bool" where
  "holds ds r (Triple k oper v) = satisfies ds r k oper v"
| "holds ds r (Combinator c items) =
     (if c = ''nor'' then \<not> list_ex (holds ds r) items
      else combine ds c (map (holds ds r) items))"

definition matches :: "datasource \<Rightarrow> query \<Rightarrow> row \<Rightarrow> bool" where
  "matches ds q r = (case q of Filter items \<Rightarrow> list_all (holds ds r) items)"

definition run_query :: "datasource \<Rightarrow> query \<Rightarrow> row list \<Rightarrow> row list" where
  "run_query ds q rows = filter (matches ds q) rows"

section \<open>A concrete namespace and concrete collaborators\<close>

text \<open>
  Three of the property mappings that \<open>BaseSharesNamespace\<close> of \<open>plugins/shares.py\<close>
  declares, with its primary key \<open>name\<close>. Their getters read the field named by \<open>get=\<close> and
  give \<open>None\<close> where the row lacks it. The theorems below hold for every namespace; this one
  is where they are evaluated.
\<close>

definition field_getter :: "string \<Rightarrow> row \<Rightarrow> error + val" where
  "field_getter f x = Inr (dict_get x (VStr f))"

definition share_name :: property_mapping where
  "share_name = \<lparr>name = ''name'', type = None, list = True, do_get = field_getter ''name''\<rparr>"

definition share_type :: property_mapping where
  "share_type = \<lparr>name = ''type'', type = None, list = False, do_get = field_getter ''type''\<rparr>"

definition share_enabled :: property_mapping where
  "share_enabled =
     \<lparr>name = ''enabled'', type = Some BOOLEAN, list = True, do_get = field_getter ''enabled''\<rparr>"

definition share_ns :: namespace where
  "share_ns =
     \<lparr>property_mappings = [share_name, share_type, share_enabled],
      primary_key = Some share_name,
      has_property = (\<lambda>p. p = ''name'' \<or> p = ''type'' \<or> p = ''enabled''),
      get_mapping = (\<lambda>p. if p = ''enabled'' then share_enabled
                          else if p = ''type'' then share_type else share_name)\<rparr>"

definition share_ctx :: "context" where
  "share_ctx = \<lparr>root_ns = share_ns, pipe_cwd = share_ns, ml = \<lparr>path = [share_ns], aliases = []\<rparr>\<rparr>"

text \<open>
  A \<open>read_value\<close> that accepts \<open>yes\<close> and \<open>no\<close> for a boolean property, rejects any other
  string there, and returns every other value as it is; renderings of argument lists that
  only tell the two kinds apart.
\<close>

definition yes_no_read_value :: "val \<Rightarrow> value_type option \<Rightarrow> error + val" where
  "yes_no_read_value v t =
     (case v of
        VStr s \<Rightarrow>
          if t = Some BOOLEAN then
            (if s = ''yes'' then Inr (VBool True)
             else if s = ''no'' then Inr (VBool False)
             else Inl (OtherError ''Invalid value''))
          else Inr v
      | _ \<Rightarrow> Inr v)"

definition plain_ext :: externals where
  "plain_ext =
     \<lparr>read_value = yes_no_read_value,
      format_args = (\<lambda>a. ''[...]''),
      format_kwargs = (\<lambda>k. ''{...}'')\<rparr>"

text \<open>
  The same namespace with no primary key, as \<open>SharesNamespace\<close> of \<open>plugins/shares.py\<close>
  declares none, and with a primary key \<open>id\<close> whose getter indexes the row and raises
  \<open>KeyError\<close> where the row lacks the field.
\<close>

definition share_ns_no_key :: namespace where
  "share_ns_no_key = share_ns\<lparr>primary_key := None\<rparr>"

definition strict_getter :: "string \<Rightarrow> row \<Rightarrow> error + val" where
  "strict_getter f x = (case x f of None \<Rightarrow> Inl (KeyError f) | Some v \<Rightarrow> Inr v)"

definition share_id :: property_mapping where
  "share_id = \<lparr>name = ''id'', type = None, list = False, do_get = strict_getter ''id''\<rparr>"

definition share_ns_id_key :: namespace where
  "share_ns_id_key = share_ns\<lparr>primary_key := Some share_id\<rparr>"

text \<open>Two rows of the shares table.\<close>

definition row_tank :: row where
  "row_tank = [''name'' \<mapsto> VStr ''tank'', ''enabled'' \<mapsto> VBool True]"

definition row_backup :: row where
  "row_backup = [''name'' \<mapsto> VStr ''backup'', ''enabled'' \<mapsto> VBool False]"

definition shares_table :: table where
  "shares_table =
     \<lparr>columns = [\<lparr>label = ''Share name'', accessor = ''name'', vt = Some STRING\<rparr>],
      data = [row_tank, row_backup]\<rparr>"

text \<open>A data source whose \<open>==\<close> compares the row's field with the value.\<close>

definition eq_datasource :: datasource where
  "eq_datasource =
     \<lparr>satisfies = (\<lambda>r k oper v. oper = ''=='' \<and> r k = Some v),
      combine = (\<lambda>c bs. False)\<rparr>"

text \<open>
  A file system with two scripts, of which the second does not decode, and a missing third
  path; the parser returns the text and \<open>eval_block\<close> appends an alias per script.
\<close>

definition two_scripts :: "string source_env" where
  "two_scripts =
     \<lparr>expanduser = (\<lambda>p. p),
      isfile = (\<lambda>p. p = ''a.cli'' \<or> p = ''b.cli''),
      read_file = (\<lambda>p. Inr p),
      decode_utf8 = (\<lambda>b. if b = ''b.cli'' then Inl (UnicodeDecodeError ''invalid start byte'')
                           else Inr b),
      parse = (\<lambda>text fname. Inr text),
      eval_block = (\<lambda>ast ctx.
        (None, ctx\<lparr>ml := (ml ctx)\<lparr>aliases := dict_set (aliases (ml ctx)) ast VNone\<rparr>\<rparr>))\<rparr>"

text \<open>The context after \<open>two_scripts\<close> has evaluated the first script from \<open>share_ctx\<close>.\<close>

definition ctx_a :: "context" where
  "ctx_a = share_ctx\<lparr>ml := \<lparr>path = [share_ns], aliases = [(''a.cli'', VNone)]\<rparr>\<rparr>"

section \<open>Reading the log of a run of \<open>source\<close>\<close>

text \<open>The files opened and the blocks evaluated, in the order of the calls.\<close>

fun opened :: "'a event list \<Rightarrow> string list" where
  "opened [] = []"
| "opened (Open p # es) = p # opened es"
| "opened (Eval a # es) = opened es"

fun evaluated :: "'a event list \<Rightarrow> 'a list" where
  "evaluated [] = []"
| "evaluated (Open p # es) = evaluated es"
| "evaluated (Eval a # es) = a # evaluated es"

section \<open>Properties of \<open>map_opargs\<close>\<close>

lemma map_opargs_loop_append:
  "map_opargs_loop ext ns pre acc = Inr ms \<Longrightarrow>
   map_opargs_loop ext ns (pre @ rest) acc = map_opargs_loop ext ns rest ms"
  by (induction ext ns pre acc rule: map_opargs_loop.induct)
     (auto simp: Let_def split: if_splits sum.splits)

lemma map_opargs_loop_unknown:
  "(k, oper, v) \<in> set opargs \<Longrightarrow> \<not> has_property ns k \<Longrightarrow>
   isl (map_opargs_loop ext ns opargs acc)"
  by (induction ext ns opargs acc rule: map_opargs_loop.induct)
     (auto simp: Let_def split: if_splits sum.splits)

lemma map_opargs_loop_result:
  "map_opargs_loop ext ns opargs acc = Inr ts \<Longrightarrow>
   \<exists>new. ts = acc @ new \<and>
     list_all2 (\<lambda>(k, oper, v) (k', oper', v').
        has_property ns k \<and> k' = name (get_mapping ns k) \<and> oper' = oper \<and>
        read_value ext v (type (get_mapping ns k)) = Inr v') opargs new"
  by (induction ext ns opargs acc rule: map_opargs_loop.induct)
     (auto simp: Let_def split: if_splits sum.splits)

lemma map_opargs_loop_some_unknown:
  assumes "\<not> has_property ns k"
      and "\<forall>(k', oper', v') \<in> set pre.
             has_property ns k' \<longrightarrow> (\<exists>w. read_value ext v' (type (get_mapping ns k')) = Inr w)"
  shows "\<exists>k'. \<not> has_property ns k' \<and>
           map_opargs_loop ext ns (pre @ (k, oper, v) # post) acc =
             Inl (CommandException (property_not_found k' ns))"
  using assms
proof (induction pre arbitrary: acc)
  case Nil
  then show ?case by (auto simp: gettext_def)
next
  case (Cons a pre)
  obtain k1 o1 v1 where a: "a = (k1, o1, v1)" by (cases a)
  show ?case
  proof (cases "has_property ns k1")
    case True
    with Cons.prems a obtain w where "read_value ext v1 (type (get_mapping ns k1)) = Inr w"
      by auto
    moreover from Cons.prems have "\<forall>(k', oper', v') \<in> set pre.
             has_property ns k' \<longrightarrow> (\<exists>w. read_value ext v' (type (get_mapping ns k')) = Inr w)"
      by simp
    ultimately show ?thesis
      using Cons.IH [OF Cons.prems(1)] True a by (simp add: Let_def)
  next
    case False
    then show ?thesis using a by (auto simp: gettext_def)
  qed
qed

section \<open>The filter of \<open>exclude\<close>\<close>

text \<open>
  C1. Whenever the operator-args of \<open>exclude\<close> map to the triples \<open>ts\<close>, the serialized filter
  is the list of \<open>('nor', (t,))\<close> for the triples \<open>t\<close> of \<open>ts\<close>, one wrapper for each and in
  their order; and \<open>ts\<close> has one triple for each operator-arg, in the order given, made of the
  mapping's name, the operator and the value that \<open>read_value\<close> returns.
\<close>

theorem exclude_wraps_each_triple_in_nor:
  assumes "map_opargs ext opargs ctx = Inr ts"
  shows "ExcludePipeCommand_serialize_filter ext ctx [] [] opargs =
           Inr (Filter (map (\<lambda>(k, oper, v). Combinator ''nor'' [Triple k oper v]) ts))
         \<and> list_all2 (\<lambda>(k, oper, v) (k', oper', v').
              k' = name (get_mapping (pipe_cwd ctx) k) \<and> oper' = oper \<and>
              read_value ext v (type (get_mapping (pipe_cwd ctx) k)) = Inr v') opargs ts"
proof -
  have "map nor ts = map (\<lambda>(k, oper, v). Combinator ''nor'' [Triple k oper v]) ts"
    by (simp add: nor_def triple_def fun_eq_iff split: prod.splits)
  then have first: "ExcludePipeCommand_serialize_filter ext ctx [] [] opargs =
      Inr (Filter (map (\<lambda>(k, oper, v). Combinator ''nor'' [Triple k oper v]) ts))"
    using assms by (simp add: ExcludePipeCommand_serialize_filter_def)
  from assms obtain new where "ts = [] @ new" and
    rel: "list_all2 (\<lambda>(k, oper, v) (k', oper', v').
        has_property (pipe_cwd ctx) k \<and> k' = name (get_mapping (pipe_cwd ctx) k) \<and> oper' = oper \<and>
        read_value ext v (type (get_mapping (pipe_cwd ctx) k)) = Inr v') opargs new"
    unfolding map_opargs_def using map_opargs_loop_result by blast
  then have "list_all2 (\<lambda>(k, oper, v) (k', oper', v').
        k' = name (get_mapping (pipe_cwd ctx) k) \<and> oper' = oper \<and>
        read_value ext v (type (get_mapping (pipe_cwd ctx) k)) = Inr v') opargs ts"
    by (auto elim!: list_all2_mono)
  with first show ?thesis by blast
qed

theorem exclude_wraps_each_triple_in_nor_witness:
  "map_opargs plain_ext [(''enabled'', ''=='', VStr ''yes''), (''name'', ''~='', VStr ''ta'')] share_ctx
     = Inr [(''enabled'', ''=='', VBool True), (''name'', ''~='', VStr ''ta'')]
   \<and> ExcludePipeCommand_serialize_filter plain_ext share_ctx [] []
        [(''enabled'', ''=='', VStr ''yes''), (''name'', ''~='', VStr ''ta'')]
     = Inr (Filter [Combinator ''nor'' [Triple ''enabled'' ''=='' (VBool True)],
                    Combinator ''nor'' [Triple ''name'' ''~='' (VStr ''ta'')]])"
proof -
  have m: "map_opargs plain_ext
      [(''enabled'', ''=='', VStr ''yes''), (''name'', ''~='', VStr ''ta'')] share_ctx
     = Inr [(''enabled'', ''=='', VBool True), (''name'', ''~='', VStr ''ta'')]"
    by (simp add: map_opargs_def share_ctx_def share_ns_def plain_ext_def yes_no_read_value_def
      share_enabled_def share_name_def)
  show ?thesis
    using m exclude_wraps_each_triple_in_nor [OF m] by simp
qed

section \<open>Unknown properties and rejected argument forms\<close>

text \<open>
  An operator-arg with an unknown key does not always bring the exception for an unknown
  property: \<open>read_value\<close> rejects the value \<open>maybe\<close> of the boolean property before it, and
  its exception is the one raised.
\<close>

theorem unknown_property_preempted_counterexample:
  "\<not> has_property (pipe_cwd share_ctx) ''volume''
   \<and> SearchPipeCommand_serialize_filter plain_ext share_ctx [] []
        [(''enabled'', ''=='', VStr ''maybe''), (''volume'', ''=='', VStr ''tank'')]
       = Inl (OtherError ''Invalid value'')
   \<and> ExcludePipeCommand_serialize_filter plain_ext share_ctx [] []
        [(''enabled'', ''=='', VStr ''maybe''), (''volume'', ''=='', VStr ''tank'')]
       = Inl (OtherError ''Invalid value'')"
  by (simp add: SearchPipeCommand_serialize_filter_def ExcludePipeCommand_serialize_filter_def
      map_opargs_def share_ctx_def share_ns_def plain_ext_def yes_no_read_value_def
      share_enabled_def)

text \<open>
  C5, amended. An operator-arg whose key is not a property of the current namespace makes
  the serialization of a \<open>search\<close> and of an \<open>exclude\<close> filter fail, whatever else the command
  line holds: no filter is produced. When the operator-args before it were mapped, the
  exception is a \<open>CommandException\<close> whose message names that key and lists, separated by
  commas, exactly the names of the namespace's property mappings whose \<open>list\<close> flag is set.
  When the values before it that belong to properties are all accepted by \<open>read_value\<close>, the
  exception is that one for some key that is not a property.
\<close>

theorem unknown_property_fails_listing_listable:
  assumes "\<not> has_property (pipe_cwd ctx) k"
  shows "isl (SearchPipeCommand_serialize_filter ext ctx args kwargs (pre @ (k, oper, v) # post))
       \<and> isl (ExcludePipeCommand_serialize_filter ext ctx args kwargs (pre @ (k, oper, v) # post))
       \<and> (\<forall>ms. map_opargs ext pre ctx = Inr ms \<longrightarrow>
            SearchPipeCommand_serialize_filter ext ctx args kwargs (pre @ (k, oper, v) # post) =
              Inl (CommandException (''Property '' @ k @ '' not found, valid properties are: '' @
                     join '','' (map name (filter list (property_mappings (pipe_cwd ctx))))))
          \<and> ExcludePipeCommand_serialize_filter ext ctx args kwargs (pre @ (k, oper, v) # post) =
              Inl (CommandException (''Property '' @ k @ '' not found, valid properties are: '' @
                     join '','' (map name (filter list (property_mappings (pipe_cwd ctx)))))))
       \<and> ((\<forall>(k', oper', v') \<in> set pre. has_property (pipe_cwd ctx) k' \<longrightarrow>
              (\<exists>w. read_value ext v' (type (get_mapping (pipe_cwd ctx) k')) = Inr w)) \<longrightarrow>
           (\<exists>k'. \<not> has_property (pipe_cwd ctx) k' \<and>
              SearchPipeCommand_serialize_filter ext ctx args kwargs (pre @ (k, oper, v) # post) =
                Inl (CommandException (''Property '' @ k' @ '' not found, valid properties are: '' @
                       join '','' (map name (filter list (property_mappings (pipe_cwd ctx))))))
            \<and> ExcludePipeCommand_serialize_filter ext ctx args kwargs (pre @ (k, oper, v) # post) =
                Inl (CommandException (''Property '' @ k' @ '' not found, valid properties are: '' @
                       join '','' (map name (filter list (property_mappings (pipe_cwd ctx))))))))"
proof -
  let ?opargs = "pre @ (k, oper, v) # post"
  let ?msg = "\<lambda>key. ''Property '' @ key @ '' not found, valid properties are: '' @
                join '','' (map name (filter list (property_mappings (pipe_cwd ctx))))"
  have "(k, oper, v) \<in> set ?opargs" by simp
  then have "isl (map_opargs ext ?opargs ctx)"
    unfolding map_opargs_def using assms by (rule map_opargs_loop_unknown)
  then obtain e where e: "map_opargs ext ?opargs ctx = Inl e"
    by (cases "map_opargs ext ?opargs ctx") auto
  have fails: "isl (SearchPipeCommand_serialize_filter ext ctx args kwargs ?opargs)
       \<and> isl (ExcludePipeCommand_serialize_filter ext ctx args kwargs ?opargs)"
    using e by (simp add: SearchPipeCommand_serialize_filter_def
        ExcludePipeCommand_serialize_filter_def)
  have both: "SearchPipeCommand_serialize_filter ext ctx args kwargs ?opargs =
                Inl (CommandException (?msg key))
            \<and> ExcludePipeCommand_serialize_filter ext ctx args kwargs ?opargs =
                Inl (CommandException (?msg key))"
    if "map_opargs ext ?opargs ctx = Inl (CommandException (property_not_found key (pipe_cwd ctx)))"
    for key
    using that
    by (simp add: SearchPipeCommand_serialize_filter_def ExcludePipeCommand_serialize_filter_def
        property_not_found_def listable_names_def)
  have reached: "SearchPipeCommand_serialize_filter ext ctx args kwargs ?opargs =
                Inl (CommandException (?msg k))
            \<and> ExcludePipeCommand_serialize_filter ext ctx args kwargs ?opargs =
                Inl (CommandException (?msg k))"
    if "map_opargs ext pre ctx = Inr ms" for ms
  proof -
    from that have "map_opargs ext ?opargs ctx =
        map_opargs_loop ext (pipe_cwd ctx) ((k, oper, v) # post) ms"
      unfolding map_opargs_def by (rule map_opargs_loop_append)
    with assms have "map_opargs ext ?opargs ctx =
        Inl (CommandException (property_not_found k (pipe_cwd ctx)))"
      by (simp add: gettext_def)
    then show ?thesis by (rule both)
  qed
  have some: "\<exists>k'. \<not> has_property (pipe_cwd ctx) k' \<and>
              SearchPipeCommand_serialize_filter ext ctx args kwargs ?opargs =
                Inl (CommandException (?msg k'))
            \<and> ExcludePipeCommand_serialize_filter ext ctx args kwargs ?opargs =
                Inl (CommandException (?msg k'))"
    if accepted: "\<forall>(k', oper', v') \<in> set pre. has_property (pipe_cwd ctx) k' \<longrightarrow>
              (\<exists>w. read_value ext v' (type (get_mapping (pipe_cwd ctx) k')) = Inr w)"
  proof -
    from map_opargs_loop_some_unknown [OF assms accepted, of oper v post "[]"]
    obtain k' where "\<not> has_property (pipe_cwd ctx) k'" and
      "map_opargs ext ?opargs ctx = Inl (CommandException (property_not_found k' (pipe_cwd ctx)))"
      unfolding map_opargs_def by blast
    with both [of k'] show ?thesis by blast
  qed
  from fails reached some show ?thesis by blast
qed

theorem unknown_property_fails_listing_listable_witness:
  "\<not> has_property (pipe_cwd share_ctx) ''volume''
   \<and> map_opargs plain_ext [(''enabled'', ''=='', VStr ''yes'')] share_ctx
       = Inr [(''enabled'', ''=='', VBool True)]
   \<and> SearchPipeCommand_serialize_filter plain_ext share_ctx [] []
        [(''enabled'', ''=='', VStr ''yes''), (''volume'', ''=='', VStr ''tank'')]
       = Inl (CommandException ''Property volume not found, valid properties are: name,enabled'')
   \<and> ExcludePipeCommand_serialize_filter plain_ext share_ctx [] []
        [(''enabled'', ''=='', VStr ''yes''), (''volume'', ''=='', VStr ''tank'')]
       = Inl (CommandException ''Property volume not found, valid properties are: name,enabled'')"
proof -
  have h: "\<not> has_property (pipe_cwd share_ctx) ''volume''"
    by (simp add: share_ctx_def share_ns_def)
  have m: "map_opargs plain_ext [(''enabled'', ''=='', VStr ''yes'')] share_ctx
       = Inr [(''enabled'', ''=='', VBool True)]"
    by (simp add: map_opargs_def share_ctx_def share_ns_def plain_ext_def yes_no_read_value_def
      share_enabled_def)
  have l: "map name (filter list (property_mappings (pipe_cwd share_ctx))) = [''name'', ''enabled'']"
    by (simp add: share_ctx_def share_ns_def share_name_def share_type_def share_enabled_def)
  show ?thesis
    using h m
      unknown_property_fails_listing_listable [OF h, of plain_ext "[]" "[]"
        "[(''enabled'', ''=='', VStr ''yes'')]" "''=='' " "VStr ''tank''" "[]"]
    by (simp add: l)
qed

text \<open>
  C10. A \<open>search\<close> or \<open>exclude\<close> that is given a positional or a keyword argument fails to
  serialize and produces no filter; when its operator-args map without error, the exception
  is the \<open>CommandException\<close> for invalid syntax, about the keyword arguments if there are
  any and about the positional ones otherwise.
\<close>

theorem positional_or_keyword_argument_is_rejected:
  assumes "args \<noteq> [] \<or> kwargs \<noteq> []"
  shows "isl (SearchPipeCommand_serialize_filter ext ctx args kwargs opargs)
       \<and> isl (ExcludePipeCommand_serialize_filter ext ctx args kwargs opargs)
       \<and> (\<forall>ts. map_opargs ext opargs ctx = Inr ts \<longrightarrow>
            SearchPipeCommand_serialize_filter ext ctx args kwargs opargs =
              Inl (CommandException (invalid_syntax
                (if kwargs \<noteq> [] then format_kwargs ext kwargs else format_args ext args)))
          \<and> ExcludePipeCommand_serialize_filter ext ctx args kwargs opargs =
              Inl (CommandException (invalid_syntax
                (if kwargs \<noteq> [] then format_kwargs ext kwargs else format_args ext args))))"
  using assms
  by (cases "map_opargs ext opargs ctx")
     (auto simp: SearchPipeCommand_serialize_filter_def ExcludePipeCommand_serialize_filter_def
        gettext_def)

theorem positional_or_keyword_argument_is_rejected_witness:
  "SearchPipeCommand_serialize_filter plain_ext share_ctx [VStr ''root''] []
        [(''name'', ''=='', VStr ''root'')]
       = Inl (CommandException (''Invalid syntax [...]. For help see 'help <command>'' @ [CHR 0x27]))
   \<and> ExcludePipeCommand_serialize_filter plain_ext share_ctx [] [(''name'', VStr ''root'')] []
       = Inl (CommandException (''Invalid syntax {...}. For help see 'help <command>'' @ [CHR 0x27]))"
proof -
  have a: "[VStr ''root''] \<noteq> [] \<or> ([] :: kwargs) \<noteq> []" by simp
  have b: "([] :: args) \<noteq> [] \<or> [(''name'', VStr ''root'')] \<noteq> []" by simp
  have m1: "map_opargs plain_ext [(''name'', ''=='', VStr ''root'')] share_ctx
      = Inr [(''name'', ''=='', VStr ''root'')]"
    by (simp add: map_opargs_def share_ctx_def share_ns_def plain_ext_def yes_no_read_value_def
      share_name_def)
  have m2: "map_opargs plain_ext [] share_ctx = Inr []"
    by (simp add: map_opargs_def)
  show ?thesis
    using m1 m2
      positional_or_keyword_argument_is_rejected [OF a, of plain_ext share_ctx
        "[(''name'', ''=='', VStr ''root'')]"]
      positional_or_keyword_argument_is_rejected [OF b, of plain_ext share_ctx "[]"]
    by (simp add: invalid_syntax_def plain_ext_def)
qed

section \<open>\<open>search\<close> against \<open>exclude\<close>\<close>

lemma serialize_single_triple:
  assumes "SearchPipeCommand_serialize_filter ext ctx [] [] [(key, oper, v)] = Inr qs"
  shows "\<exists>t. qs = Filter [t] \<and>
           ExcludePipeCommand_serialize_filter ext ctx [] [] [(key, oper, v)] =
             Inr (Filter [Combinator ''nor'' [t]])"
  using assms
  by (auto simp: SearchPipeCommand_serialize_filter_def ExcludePipeCommand_serialize_filter_def
        map_opargs_def nor_def Let_def split: sum.splits if_splits)

text \<open>
  C2. For one comparison \<open>key == v\<close>: when \<open>search\<close> serializes a filter, \<open>exclude\<close> does too,
  and on every row exactly one of the two filters holds. The rows that the two queries
  select from the same list are therefore disjoint, cover the list, and add up to its length.
\<close>

theorem search_and_exclude_partition_rows:
  assumes "SearchPipeCommand_serialize_filter ext ctx [] [] [(key, ''=='', v)] = Inr qs"
  shows "\<exists>qe. ExcludePipeCommand_serialize_filter ext ctx [] [] [(key, ''=='', v)] = Inr qe
           \<and> (\<forall>r. matches ds qe r = (\<not> matches ds qs r))
           \<and> set (run_query ds qs rows) \<inter> set (run_query ds qe rows) = {}
           \<and> set (run_query ds qs rows) \<union> set (run_query ds qe rows) = set rows
           \<and> length (run_query ds qs rows) + length (run_query ds qe rows) = length rows"
proof -
  from serialize_single_triple [OF assms] obtain t where
    qs: "qs = Filter [t]" and
    qe: "ExcludePipeCommand_serialize_filter ext ctx [] [] [(key, ''=='', v)] =
           Inr (Filter [Combinator ''nor'' [t]])"
    by blast
  have compl: "matches ds (Filter [Combinator ''nor'' [t]]) r = (\<not> matches ds qs r)" for r
    by (simp add: matches_def qs)
  have disj: "set (run_query ds qs rows) \<inter> set (run_query ds (Filter [Combinator ''nor'' [t]]) rows) = {}"
    by (auto simp: run_query_def compl)
  have un: "set (run_query ds qs rows) \<union> set (run_query ds (Filter [Combinator ''nor'' [t]]) rows) = set rows"
    by (auto simp: run_query_def compl)
  have len: "length (run_query ds qs rows) + length (run_query ds (Filter [Combinator ''nor'' [t]]) rows)
      = length rows"
  proof -
    have "matches ds (Filter [Combinator ''nor'' [t]]) = (\<lambda>r. \<not> matches ds qs r)"
      using compl by (simp add: fun_eq_iff)
    then show ?thesis
      by (simp add: run_query_def sum_length_filter_compl)
  qed
  from qe compl disj un len show ?thesis by blast
qed

theorem search_and_exclude_partition_rows_witness:
  "SearchPipeCommand_serialize_filter plain_ext share_ctx [] [] [(''name'', ''=='', VStr ''tank'')]
     = Inr (Filter [Triple ''name'' ''=='' (VStr ''tank'')])
   \<and> ExcludePipeCommand_serialize_filter plain_ext share_ctx [] [] [(''name'', ''=='', VStr ''tank'')]
     = Inr (Filter [Combinator ''nor'' [Triple ''name'' ''=='' (VStr ''tank'')]])
   \<and> run_query eq_datasource (Filter [Triple ''name'' ''=='' (VStr ''tank'')])
        [row_tank, row_backup] = [row_tank]
   \<and> run_query eq_datasource (Filter [Combinator ''nor'' [Triple ''name'' ''=='' (VStr ''tank'')]])
        [row_tank, row_backup] = [row_backup]"
proof -
  have s: "SearchPipeCommand_serialize_filter plain_ext share_ctx [] []
      [(''name'', ''=='', VStr ''tank'')] = Inr (Filter [Triple ''name'' ''=='' (VStr ''tank'')])"
    by (simp add: SearchPipeCommand_serialize_filter_def map_opargs_def share_ctx_def share_ns_def
        plain_ext_def yes_no_read_value_def share_name_def triple_def)
  have a: "run_query eq_datasource (Filter [Triple ''name'' ''=='' (VStr ''tank'')])
        [row_tank, row_backup] = [row_tank]"
    by (simp add: run_query_def matches_def eq_datasource_def row_tank_def row_backup_def)
  from search_and_exclude_partition_rows [OF s, of eq_datasource "[row_tank, row_backup]"]
  obtain qe where
    e: "ExcludePipeCommand_serialize_filter plain_ext share_ctx [] []
          [(''name'', ''=='', VStr ''tank'')] = Inr qe" and
    c: "\<forall>r. matches eq_datasource qe r =
          (\<not> matches eq_datasource (Filter [Triple ''name'' ''=='' (VStr ''tank'')]) r)"
    by blast
  have e': "ExcludePipeCommand_serialize_filter plain_ext share_ctx [] []
      [(''name'', ''=='', VStr ''tank'')]
      = Inr (Filter [Combinator ''nor'' [Triple ''name'' ''=='' (VStr ''tank'')]])"
    by (simp add: ExcludePipeCommand_serialize_filter_def map_opargs_def share_ctx_def
        share_ns_def plain_ext_def yes_no_read_value_def share_name_def triple_def nor_def)
  with e have qe: "qe = Filter [Combinator ''nor'' [Triple ''name'' ''=='' (VStr ''tank'')]]"
    by simp
  have b: "run_query eq_datasource qe [row_tank, row_backup] = [row_backup]"
    using c by (simp add: run_query_def matches_def eq_datasource_def row_tank_def row_backup_def)
  from s e' a b qe show ?thesis by simp
qed

section \<open>\<open>find\<close> and \<open>select\<close>\<close>

text \<open>
  On a table with a first row the result of \<open>find\<close> is not always a primary-key value:
  where the getter raises \<open>KeyError\<close> for the first row the result is \<open>None\<close>, and in a
  namespace without a primary key the call raises.
\<close>

theorem find_on_non_empty_table_counterexample:
  "data shares_table = [row_tank, row_backup]
   \<and> do_get share_id row_tank = Inl (KeyError ''id'')
   \<and> FindPipeCommand_run (share_ctx\<lparr>pipe_cwd := share_ns_id_key\<rparr>) [] [] [] (Table shares_table)
       = Inr (Value VNone)
   \<and> FindPipeCommand_run (share_ctx\<lparr>pipe_cwd := share_ns_no_key\<rparr>) [] [] [] (Table shares_table)
       = Inl (AttributeError no_attribute_do_get)"
  by (simp add: FindPipeCommand_run_def shares_table_def share_ctx_def share_ns_id_key_def
      share_ns_no_key_def share_ns_def share_id_def strict_getter_def row_tank_def)

text \<open>
  C3, amended. On a table with a first row, in a namespace that has a primary key, \<open>find\<close>
  returns the value that the primary key's getter gives for that row, and nothing of the
  other rows, when the getter returns one; it returns \<open>None\<close> when the getter raises
  \<open>KeyError\<close> or \<open>StopIteration\<close> for that row. On an empty table, and on an input that is
  no table, it returns \<open>None\<close> and raises nothing, in every namespace.
\<close>

theorem find_first_primary_key_or_none:
  "(inp = Table t \<and> data t = first # rest \<and> primary_key (pipe_cwd ctx) = Some prop
      \<and> do_get prop first = Inr v
      \<longrightarrow> FindPipeCommand_run ctx args kwargs opargs inp = Inr (Value v))
   \<and> (inp = Table t \<and> data t = first # rest \<and> primary_key (pipe_cwd ctx) = Some prop
      \<and> (do_get prop first = Inl (KeyError why) \<or> do_get prop first = Inl StopIteration)
      \<longrightarrow> FindPipeCommand_run ctx args kwargs opargs inp = Inr (Value VNone))
   \<and> (inp = Table t \<and> data t = []
      \<longrightarrow> FindPipeCommand_run ctx args kwargs opargs inp = Inr (Value VNone))
   \<and> ((\<forall>t'. inp \<noteq> Table t')
      \<longrightarrow> FindPipeCommand_run ctx args kwargs opargs inp = Inr (Value VNone))"
  by (cases inp) (auto simp: FindPipeCommand_run_def Let_def)

theorem find_first_primary_key_or_none_witness:
  "FindPipeCommand_run share_ctx [] [] [] (Table shares_table) = Inr (Value (VStr ''tank''))
   \<and> FindPipeCommand_run (share_ctx\<lparr>pipe_cwd := share_ns_id_key\<rparr>) [] [] [] (Table shares_table)
       = Inr (Value VNone)
   \<and> FindPipeCommand_run share_ctx [] [] [] (Table \<lparr>columns = [], data = []\<rparr>) = Inr (Value VNone)
   \<and> FindPipeCommand_run share_ctx [] [] [] (Value (VInt 3)) = Inr (Value VNone)
   \<and> FindPipeCommand_run share_ctx [] [] [] (Sequence [VStr ''a'']) = Inr (Value VNone)"
proof -
  have h1: "Table shares_table = Table shares_table \<and> data shares_table = row_tank # [row_backup]
      \<and> primary_key (pipe_cwd share_ctx) = Some share_name
      \<and> do_get share_name row_tank = Inr (VStr ''tank'')"
    by (simp add: shares_table_def share_ctx_def share_ns_def share_name_def field_getter_def
        dict_get_def row_tank_def)
  have h1': "Table shares_table = Table shares_table \<and> data shares_table = row_tank # [row_backup]
      \<and> primary_key (pipe_cwd (share_ctx\<lparr>pipe_cwd := share_ns_id_key\<rparr>)) = Some share_id
      \<and> do_get share_id row_tank = Inl (KeyError ''id'')"
    by (simp add: shares_table_def share_ns_id_key_def share_ns_def share_id_def
        strict_getter_def row_tank_def)
  have h2: "Table \<lparr>columns = [], data = []\<rparr> = Table \<lparr>columns = [], data = []\<rparr>
      \<and> data \<lparr>columns = [], data = []\<rparr> = []"
    by simp
  have h3: "\<forall>t'. Value (VInt 3) \<noteq> Table t'" by simp
  have h4: "\<forall>t'. Sequence [VStr ''a''] \<noteq> Table t'" by simp
  show ?thesis
    using h1 h1' h2 h3 h4
      find_first_primary_key_or_none [of "Table shares_table" shares_table row_tank
        "[row_backup]" share_ctx share_name "VStr ''tank''" "[]" "[]" "[]"]
      find_first_primary_key_or_none [of "Table shares_table" shares_table row_tank
        "[row_backup]" "share_ctx\<lparr>pipe_cwd := share_ns_id_key\<rparr>" share_id VNone
        "[]" "[]" "[]" "''id''"]
      find_first_primary_key_or_none [of "Table \<lparr>columns = [], data = []\<rparr>"
        "\<lparr>columns = [], data = []\<rparr>" row_tank "[]" share_ctx share_name VNone "[]" "[]" "[]"]
      find_first_primary_key_or_none [of "Value (VInt 3)" shares_table row_tank "[]"
        share_ctx share_name VNone "[]" "[]" "[]"]
      find_first_primary_key_or_none [of "Sequence [VStr ''a'']" shares_table row_tank "[]"
        share_ctx share_name VNone "[]" "[]" "[]"]
    by simp
qed

text \<open>
  C4. \<open>select\<close> raises the \<open>CommandException\<close> that asks for exactly one field name
  whenever the number of its arguments is not one, for every input. Given one field name
  and a table, it returns a table with the single column \<open>Result\<close> and one row per input
  row, holding that row's value of the field, or \<open>None\<close> where the row lacks it.
\<close>

theorem select_arity_and_projection:
  "(length args \<noteq> 1 \<longrightarrow>
      SelectPipeCommand_run ctx args kwargs opargs inp =
        Inl (CommandException ''Please specify exactly one field name''))
   \<and> SelectPipeCommand_run ctx [VStr f] kwargs opargs (Table t) =
        Inr (Table \<lparr>columns = [\<lparr>label = ''Result'', accessor = ''result'', vt = None\<rparr>],
                    data = map (\<lambda>x. [''result'' \<mapsto> (case x f of None \<Rightarrow> VNone | Some v \<Rightarrow> v)])
                             (data t)\<rparr>)
   \<and> (\<forall>res. SelectPipeCommand_run ctx [VStr f] kwargs opargs (Table t) = Inr (Table res) \<longrightarrow>
         length (columns res) = 1 \<and> length (data res) = length (data t))"
  by (auto simp: SelectPipeCommand_run_def dict_get_def)

theorem select_arity_and_projection_witness:
  "SelectPipeCommand_run share_ctx [] [] [] (Table shares_table) =
     Inl (CommandException ''Please specify exactly one field name'')
   \<and> SelectPipeCommand_run share_ctx [VStr ''name'', VStr ''enabled''] [] [] (Table shares_table) =
     Inl (CommandException ''Please specify exactly one field name'')
   \<and> SelectPipeCommand_run share_ctx [VStr ''name''] [] [] (Table shares_table) =
     Inr (Table \<lparr>columns = [\<lparr>label = ''Result'', accessor = ''result'', vt = None\<rparr>],
                 data = [[''result'' \<mapsto> VStr ''tank''], [''result'' \<mapsto> VStr ''backup'']]\<rparr>)"
proof -
  have h1: "length ([] :: args) \<noteq> 1" by simp
  have h2: "length [VStr ''name'', VStr ''enabled''] \<noteq> 1" by simp
  show ?thesis
    using h1 h2
      select_arity_and_projection [of "[]" share_ctx "[]" "[]" "Table shares_table"
        "''name''" shares_table]
      select_arity_and_projection [of "[VStr ''name'', VStr ''enabled'']" share_ctx "[]" "[]"
        "Table shares_table" "''name''" shares_table]
    by (simp add: shares_table_def row_tank_def row_backup_def)
qed

text \<open>
  C9. With exactly one argument and an input that is no table, \<open>select\<close> returns \<open>None\<close>:
  it neither raises nor builds a table.
\<close>

theorem select_on_non_table_is_none:
  assumes "length args = 1" and "\<forall>t. inp \<noteq> Table t"
  shows "SelectPipeCommand_run ctx args kwargs opargs inp = Inr (Value VNone)"
  using assms by (cases inp) (auto simp: SelectPipeCommand_run_def)

theorem select_on_non_table_is_none_witness:
  "length [VStr ''name''] = 1 \<and> (\<forall>t. Value (VInt 7) \<noteq> Table t)
   \<and> SelectPipeCommand_run share_ctx [VStr ''name''] [] [] (Value (VInt 7)) = Inr (Value VNone)"
proof -
  have h1: "length [VStr ''name''] = 1" by simp
  have h2: "\<forall>t. Value (VInt 7) \<noteq> Table t" by simp
  show ?thesis
    using h1 h2 select_on_non_table_is_none [OF h1 h2, of share_ctx "[]" "[]"] by simp
qed

section \<open>The stages that fold into the query\<close>

text \<open>
  C6. The \<open>run\<close> of \<open>search\<close>, \<open>exclude\<close>, \<open>sort\<close>, \<open>limit\<close>, \<open>older_than\<close>, \<open>newer_than\<close> and
  \<open>tail\<close> returns its input as it is, for every context, argument list and input: none of
  them looks at the rows it is given.
\<close>

theorem foldable_stages_run_is_identity:
  "SearchPipeCommand_run ctx args kwargs opargs inp = Inr inp
   \<and> ExcludePipeCommand_run ctx args kwargs opargs inp = Inr inp
   \<and> SortPipeCommand_run ctx args kwargs opargs inp = Inr inp
   \<and> LimitPipeCommand_run ctx args kwargs opargs inp = Inr inp
   \<and> OlderThanPipeCommand_run ctx args kwargs opargs inp = Inr inp
   \<and> NewerThanPipeCommand_run ctx args kwargs opargs inp = Inr inp
   \<and> TailPipeCommand_run ctx args kwargs opargs inp = Inr inp"
  by (simp add: SearchPipeCommand_run_def ExcludePipeCommand_run_def SortPipeCommand_run_def
      LimitPipeCommand_run_def OlderThanPipeCommand_run_def NewerThanPipeCommand_run_def
      TailPipeCommand_run_def)

section \<open>\<open>source\<close> stops at the first failure\<close>

lemma opened_append: "opened (xs @ ys) = opened xs @ opened ys"
  by (induction xs rule: opened.induct) auto

lemma evaluated_append: "evaluated (xs @ ys) = evaluated xs @ evaluated ys"
  by (induction xs rule: evaluated.induct) auto

lemma source_file_opened:
  "source_file env f st = (r, st') \<Longrightarrow>
   opened (snd st') = opened (snd st) @
     (if isfile env (expanduser env f) then [expanduser env f] else [])"
  by (cases st)
     (auto simp: source_file_def Let_def opened_append split: if_splits sum.splits option.splits prod.splits)

lemma source_file_evaluated:
  "source_file env f st = (r, st') \<Longrightarrow>
   length (evaluated (snd st')) \<le> Suc (length (evaluated (snd st)))"
  by (cases st)
     (auto simp: source_file_def Let_def evaluated_append split: if_splits sum.splits option.splits prod.splits)

lemma source_file_success:
  "source_file env f st = (None, st') \<Longrightarrow>
   isfile env (expanduser env f) \<and> length (evaluated (snd st')) = Suc (length (evaluated (snd st)))"
  by (cases st)
     (auto simp: source_file_def Let_def evaluated_append split: if_splits sum.splits option.splits prod.splits)

lemma source_loop_append:
  "source_loop env pre st = (None, st1) \<Longrightarrow>
   source_loop env (pre @ rest) st = source_loop env rest st1"
  by (induction env pre st rule: source_loop.induct)
     (auto split: prod.splits option.splits)

lemma source_loop_opened:
  "source_loop env pre st = (None, st1) \<Longrightarrow>
   opened (snd st1) = opened (snd st) @ map (expanduser env) pre"
proof (induction pre arbitrary: st)
  case Nil
  then show ?case by simp
next
  case (Cons arg rest)
  from Cons.prems obtain st' where
    f: "source_file env arg st = (None, st')" and l: "source_loop env rest st' = (None, st1)"
    by (auto split: prod.splits option.splits)
  from source_file_opened [OF f] source_file_success [OF f]
  have "opened (snd st') = opened (snd st) @ [expanduser env arg]" by simp
  moreover from Cons.IH [OF l]
  have "opened (snd st1) = opened (snd st') @ map (expanduser env) rest" .
  ultimately show ?case by simp
qed

lemma source_loop_evaluated:
  "source_loop env pre st = (None, st1) \<Longrightarrow>
   length (evaluated (snd st1)) = length (evaluated (snd st)) + length pre"
proof (induction pre arbitrary: st)
  case Nil
  then show ?case by simp
next
  case (Cons arg rest)
  from Cons.prems obtain st' where
    f: "source_file env arg st = (None, st')" and l: "source_loop env rest st' = (None, st1)"
    by (auto split: prod.splits option.splits)
  from source_file_success [OF f]
  have "length (evaluated (snd st')) = Suc (length (evaluated (snd st)))" by simp
  moreover from Cons.IH [OF l]
  have "length (evaluated (snd st1)) = length (evaluated (snd st')) + length rest" .
  ultimately show ?case by simp
qed

text \<open>
  The three ways a file fails: it does not exist, it does not decode, or \<open>eval_block\<close>
  raises on its commands.
\<close>

lemma source_file_failures:
  "\<not> isfile env (expanduser env f) \<Longrightarrow>
     fst (source_file env f (ctx, log)) =
       Some (CommandException (''File '' @ expanduser env f @ '' does not exist.''))"
  "isfile env (expanduser env f) \<Longrightarrow> read_file env (expanduser env f) = Inr bytes \<Longrightarrow>
     decode_utf8 env bytes = Inl (UnicodeDecodeError why) \<Longrightarrow>
     fst (source_file env f (ctx, log)) =
       Some (CommandException (''Incorrect filetype, cannot parse file: '' @ why))"
  "isfile env (expanduser env f) \<Longrightarrow> read_file env (expanduser env f) = Inr bytes \<Longrightarrow>
     decode_utf8 env bytes = Inr text \<Longrightarrow> parse env text (expanduser env f) = Inr ast \<Longrightarrow>
     eval_block env ast ctx = (Some e, ctx') \<Longrightarrow>
     fst (source_file env f (ctx, log)) = Some (except_UnicodeDecodeError e)"
  by (simp_all add: source_file_def Let_def gettext_def except_UnicodeDecodeError_def)

text \<open>
  C7. When the files before \<open>f\<close> run without an exception and \<open>f\<close> fails, \<open>source\<close> ends with
  the exception of \<open>f\<close> in the state that \<open>f\<close> left, whatever files follow: the result is the
  one of the list cut after \<open>f\<close>. The files opened are the ones before \<open>f\<close>, in the order
  given, and then \<open>f\<close> if it exists; at most one block per file up to \<open>f\<close> was evaluated.
\<close>

theorem source_aborts_at_first_failure:
  assumes "source_loop env pre (ctx, []) = (None, st1)"
      and "source_file env f st1 = (Some e, st2)"
  shows "SourceCommand_run env ctx (pre @ f # post) = (Some e, st2)
       \<and> SourceCommand_run env ctx (pre @ f # post) = SourceCommand_run env ctx (pre @ [f])
       \<and> opened (snd st2) = map (expanduser env) pre @
            (if isfile env (expanduser env f) then [expanduser env f] else [])
       \<and> length (evaluated (snd st2)) \<le> length pre + 1"
proof -
  have run: "SourceCommand_run env ctx (pre @ f # rest) = (Some e, st2)" for rest
  proof -
    have "SourceCommand_run env ctx (pre @ f # rest) = source_loop env (pre @ f # rest) (ctx, [])"
      by (simp add: SourceCommand_run_def)
    also have "\<dots> = source_loop env (f # rest) st1"
      using assms(1) by (rule source_loop_append)
    also have "\<dots> = (Some e, st2)"
      using assms(2) by simp
    finally show ?thesis .
  qed
  have o1: "opened (snd st1) = map (expanduser env) pre"
    using source_loop_opened [OF assms(1)] by simp
  have o2: "opened (snd st2) = map (expanduser env) pre @
            (if isfile env (expanduser env f) then [expanduser env f] else [])"
    using source_file_opened [OF assms(2)] o1 by simp
  have e1: "length (evaluated (snd st1)) = length pre"
    using source_loop_evaluated [OF assms(1)] by simp
  have e2: "length (evaluated (snd st2)) \<le> length pre + 1"
    using source_file_evaluated [OF assms(2)] e1 by simp
  from run [of post] run [of "[]"] o2 e2 show ?thesis by simp
qed

theorem source_aborts_at_first_failure_witness:
  "source_loop two_scripts [''a.cli''] (share_ctx, []) =
     (None, ctx_a, [Open ''a.cli'', Eval ''a.cli''])
   \<and> source_file two_scripts ''b.cli'' (ctx_a, [Open ''a.cli'', Eval ''a.cli'']) =
     (Some (CommandException ''Incorrect filetype, cannot parse file: invalid start byte''),
      ctx_a, [Open ''a.cli'', Eval ''a.cli'', Open ''b.cli''])
   \<and> SourceCommand_run two_scripts share_ctx [''a.cli'', ''b.cli'', ''a.cli''] =
     (Some (CommandException ''Incorrect filetype, cannot parse file: invalid start byte''),
      ctx_a, [Open ''a.cli'', Eval ''a.cli'', Open ''b.cli''])"
proof -
  have h1: "source_loop two_scripts [''a.cli''] (share_ctx, []) =
     (None, ctx_a, [Open ''a.cli'', Eval ''a.cli''])"
    by (simp add: source_file_def two_scripts_def ctx_a_def share_ctx_def Let_def)
  have h2: "source_file two_scripts ''b.cli'' (ctx_a, [Open ''a.cli'', Eval ''a.cli'']) =
     (Some (CommandException ''Incorrect filetype, cannot parse file: invalid start byte''),
      ctx_a, [Open ''a.cli'', Eval ''a.cli'', Open ''b.cli''])"
    by (simp add: source_file_def two_scripts_def except_UnicodeDecodeError_def gettext_def Let_def)
  show ?thesis
    using h1 h2 source_aborts_at_first_failure [OF h1 h2, of "[''a.cli'']"] by simp
qed

section \<open>\<open>top\<close> and \<open>alias\<close> run twice\<close>

lemma keys_dict_set: "fst ` set (dict_set d k v) = insert k (fst ` set d)"
  by (induction d k v rule: dict_set.induct) auto

lemma dict_set_twice: "dict_set (dict_set d k v) k w = dict_set d k w"
  by (induction d k v rule: dict_set.induct) auto

lemma dict_set_commute:
  "k \<noteq> k' \<Longrightarrow> k \<in> fst ` set d \<Longrightarrow>
   dict_set (dict_set d k v) k' w = dict_set (dict_set d k' w) k v"
  by (induction d k v rule: dict_set.induct) (auto simp: rev_image_eqI)

lemma keys_set_aliases: "k \<in> fst ` set d \<Longrightarrow> k \<in> fst ` set (set_aliases kw d)"
  by (induction kw d rule: set_aliases.induct) (auto simp: keys_dict_set)

lemma set_aliases_overwritten:
  "k \<in> fst ` set kw \<Longrightarrow> k \<in> fst ` set d \<Longrightarrow>
   set_aliases kw (dict_set d k v) = set_aliases kw d"
proof (induction kw d rule: set_aliases.induct)
  case (1 d)
  then show ?case by simp
next
  case (2 nm v' rest d)
  show ?case
  proof (cases "nm = k")
    case True
    then show ?thesis by (simp add: dict_set_twice)
  next
    case False
    with "2.prems" have in_rest: "k \<in> fst ` set rest" by auto
    have "dict_set (dict_set d k v) nm v' = dict_set (dict_set d nm v') k v"
      using False "2.prems"(2) dict_set_commute [of k nm d v v'] by simp
    moreover have "k \<in> fst ` set (dict_set d nm v')"
      using "2.prems"(2) by (simp add: keys_dict_set)
    ultimately show ?thesis
      using "2.IH" [OF in_rest] by simp
  qed
qed

lemma dict_set_through_set_aliases:
  "k \<notin> fst ` set kw \<Longrightarrow> k \<in> fst ` set d \<Longrightarrow>
   dict_set (set_aliases kw d) k v = set_aliases kw (dict_set d k v)"
proof (induction kw d rule: set_aliases.induct)
  case (1 d)
  then show ?case by simp
next
  case (2 nm v' rest d)
  then have ne: "k \<noteq> nm" and notin: "k \<notin> fst ` set rest" by auto
  have "k \<in> fst ` set (dict_set d nm v')"
    using "2.prems"(2) by (simp add: keys_dict_set)
  with "2.IH" [OF notin]
  have "dict_set (set_aliases rest (dict_set d nm v')) k v =
        set_aliases rest (dict_set (dict_set d nm v') k v)" by simp
  moreover have "dict_set (dict_set d nm v') k v = dict_set (dict_set d k v) nm v'"
    using ne "2.prems"(2) dict_set_commute [of k nm d v v'] by simp
  ultimately show ?case by simp
qed

lemma set_aliases_idem: "set_aliases kw (set_aliases kw d) = set_aliases kw d"
proof (induction kw d rule: set_aliases.induct)
  case (1 d)
  then show ?case by simp
next
  case (2 nm v rest d)
  let ?e = "dict_set d nm v"
  have in_e: "nm \<in> fst ` set ?e" by (simp add: keys_dict_set)
  have "set_aliases rest (dict_set (set_aliases rest ?e) nm v) = set_aliases rest ?e"
  proof (cases "nm \<in> fst ` set rest")
    case True
    have "nm \<in> fst ` set (set_aliases rest ?e)" using in_e by (rule keys_set_aliases)
    with True have "set_aliases rest (dict_set (set_aliases rest ?e) nm v) =
        set_aliases rest (set_aliases rest ?e)"
      by (rule set_aliases_overwritten)
    with "2.IH" show ?thesis by simp
  next
    case False
    from False in_e have "dict_set (set_aliases rest ?e) nm v = set_aliases rest (dict_set ?e nm v)"
      by (rule dict_set_through_set_aliases)
    then have "dict_set (set_aliases rest ?e) nm v = set_aliases rest ?e"
      by (simp add: dict_set_twice)
    with "2.IH" show ?thesis by simp
  qed
  then show ?case by simp
qed

text \<open>
  C8. Running \<open>top\<close> a second time returns what the first run returned and leaves the
  context of the first run, whose path is the root namespace alone. Running \<open>alias\<close> a
  second time with the same keyword arguments returns what the first run returned and
  leaves the context of the first run; in particular \<open>alias name=value\<close> twice leaves the
  alias table that one run leaves.
\<close>

theorem top_and_alias_are_idempotent:
  "TopCommand_run (snd (TopCommand_run ctx args kwargs opargs)) args kwargs opargs =
     TopCommand_run ctx args kwargs opargs
   \<and> path (ml (snd (TopCommand_run ctx args kwargs opargs))) = [root_ns ctx]
   \<and> AliasCommand_run (snd (AliasCommand_run ctx args kwargs opargs)) args kwargs opargs =
     AliasCommand_run ctx args kwargs opargs
   \<and> aliases (ml (snd (AliasCommand_run (snd (AliasCommand_run ctx args [(nm, v)] opargs))
        args [(nm, v)] opargs))) =
     aliases (ml (snd (AliasCommand_run ctx args [(nm, v)] opargs)))"
  by (simp add: TopCommand_run_def AliasCommand_run_def set_aliases_idem dict_set_twice)

end
